theory Spec2Isabelle
  imports Main "HOL-Library.Sublist"
begin

unbundle bit_operations_syntax

text \<open>
  A model of the job alert bot of \<open>main.py\<close>: the eligibility filter, the fingerprint
  of a posting, the listing fetcher with its record extractor, the notifier, the
  fingerprint store and one cycle of the poll loop, each as a function that computes what
  the Python function computes, followed by the properties proved of them.
\<close>

section \<open>Strings and the standard library\<close>

text \<open>
  A Python \<open>str\<close> is a sequence of Unicode code points: \<open>len\<close>, slicing and the
  substring test \<open>needle in hay\<close> all work on code points. A string is therefore a list of
  code points, and \<open>needle in hay\<close> is \<open>sublist needle hay\<close> (a contiguous run).
  \<open>str\<close> turns an ASCII literal into such a list; the accented letters of the source
  are written as their code points (\<open>233\<close> is U+00E9).
\<close>

type_synonym pystr = "nat list"

definition str :: "string \<Rightarrow> pystr" where
  "str s = map of_char s"

text \<open>
  Three library functions are used by the program and are not part of it:
  \<open>str.lower\<close>, \<open>str.upper\<close> (the Unicode case mappings, which may change the length
  of a string) and \<open>urllib.parse.urljoin\<close> (which raises \<open>ValueError\<close> on a malformed
  reference: \<open>None\<close>). The functions of the program take them as the parameter \<open>L\<close>, so
  every theorem below holds for whatever these three functions compute.
\<close>

record stdlib =
  str_lower :: "pystr \<Rightarrow> pystr"
  str_upper :: "pystr \<Rightarrow> pystr"
  urljoin :: "pystr \<Rightarrow> pystr \<Rightarrow> pystr option"

text \<open>
  For evaluation at concrete inputs: the case mappings of CPython on the code points
  U+0000 to U+00FF (Basic Latin and Latin-1 Supplement; other code points are passed
  through and occur in no evaluated input), and \<open>urljoin\<close> for a reference that is an
  absolute path (\<open>/...\<close>, not \<open>//...\<close>) against a base without a path, where the result
  is the concatenation.
\<close>

definition lower_cp :: "nat \<Rightarrow> nat" where
  "lower_cp c = (if (65 \<le> c \<and> c \<le> 90) \<or> (192 \<le> c \<and> c \<le> 222 \<and> c \<noteq> 215) then c + 32 else c)"

definition upper_cp :: "nat \<Rightarrow> pystr" where
  "upper_cp c =
     (if (97 \<le> c \<and> c \<le> 122) \<or> (224 \<le> c \<and> c \<le> 254 \<and> c \<noteq> 247) then [c - 32]
      else if c = 223 then [83, 83]
      else if c = 255 then [376]
      else if c = 181 then [924]
      else [c])"

definition latin1_lib :: stdlib where
  "latin1_lib = \<lparr> str_lower = map lower_cp,
                  str_upper = (\<lambda>s. concat (map upper_cp s)),
                  urljoin = (\<lambda>base href. Some (base @ href)) \<rparr>"

section \<open>Configuration\<close>

definition TITLES :: "pystr list" where
  "TITLES =
     [str ''op'' @ [233] @ str ''rateur de saisie'',
      str ''op'' @ [233] @ str ''rateur saisie'',
      str ''saisie de donn'' @ [233] @ str ''es'',
      str ''saisie'',
      str ''op'' @ [233] @ str ''rateur saisie'',
      str ''data entry'']"

definition BRETAGNE_CITIES :: "pystr list" where
  "BRETAGNE_CITIES =
     [str ''Rennes'', str ''Nantes'', str ''Brest'', str ''Saint-Brieuc'',
      str ''Vannes'', str ''Lorient'', str ''Quimper'', str ''Brest'']"

definition CONTRACT_KEYWORDS :: "pystr list" where
  "CONTRACT_KEYWORDS =
     [str ''CDI'', str ''CDD'', str ''Int'' @ [233] @ str ''rim'', str ''Interim'',
      str ''Contrat'']"

section \<open>Job records\<close>

text \<open>
  The dictionaries built by \<open>parse_indeed_search\<close> always carry the same seven keys;
  all values are strings except \<open>contract\<close>, which is a keyword or \<open>None\<close>.
  The key \<open>id\<close> is the field \<open>job_id\<close>.
\<close>

record job =
  title :: pystr
  company :: pystr
  location :: pystr
  summary :: pystr
  link :: pystr
  contract :: "pystr option"
  job_id :: pystr

section \<open>The eligibility filter\<close>

text \<open>
  The body of the loop of \<open>filter_by_region_and_contract\<close>, one definition for each
  local variable and each test, in the order of the source. On a string field
  \<open>j.get(k) or ""\<close> is the field itself.
\<close>

definition job_loc :: "stdlib \<Rightarrow> job \<Rightarrow> pystr" where
  "job_loc L j = str_lower L (location j)"

definition job_text :: "stdlib \<Rightarrow> job \<Rightarrow> pystr" where
  "job_text L j = str_lower L (title j @ str '' '' @ summary j)"

definition teletravail :: pystr where
  "teletravail = str ''t'' @ [233] @ str ''l'' @ [233] @ str ''travail''"

definition is_remote :: "stdlib \<Rightarrow> job \<Rightarrow> bool" where
  "is_remote L j =
     (sublist teletravail (job_loc L j) \<or> sublist teletravail (job_text L j)
      \<or> sublist (str ''teletravail'') (job_text L j)
      \<or> sublist (str ''remote'') (job_text L j))"

definition in_region :: "stdlib \<Rightarrow> pystr list \<Rightarrow> job \<Rightarrow> bool" where
  "in_region L region_cities j =
     list_ex (\<lambda>city. sublist (str_lower L city) (job_loc L j)
                    \<or> sublist (str_lower L city) (job_text L j)) region_cities"

definition pass_ok :: "stdlib \<Rightarrow> pystr list \<Rightarrow> bool \<Rightarrow> job \<Rightarrow> bool" where
  "pass_ok L region_cities accept_remote j =
     (if accept_remote \<and> is_remote L j then True else in_region L region_cities j)"

text \<open>The tag test of line 140 and the summary test of line 142, with its own tuple.\<close>

definition tag_accepted :: "stdlib \<Rightarrow> pystr \<Rightarrow> bool" where
  "tag_accepted L c =
     list_ex (\<lambda>kw. sublist (str_upper L kw) (str_upper L c)) CONTRACT_KEYWORDS"

definition summary_keywords :: "pystr list" where
  "summary_keywords =
     [str ''cdi'', str ''cdd'', str ''int'' @ [233] @ str ''rim'', str ''interim'']"

definition summary_accepted :: "stdlib \<Rightarrow> job \<Rightarrow> bool" where
  "summary_accepted L j =
     list_ex (\<lambda>kw. sublist (str_lower L kw) (str_lower L (summary j))) summary_keywords"

text \<open>
  The contract gate reaches \<open>continue\<close> exactly when this holds. \<open>if j.get("contract")\<close>
  is true for a tag that is neither \<open>None\<close> nor the empty string.
\<close>

definition contract_rejects :: "stdlib \<Rightarrow> bool \<Rightarrow> job \<Rightarrow> bool" where
  "contract_rejects L accept_contracts j =
     (accept_contracts \<and>
      (case contract j of
         None \<Rightarrow> False
       | Some c \<Rightarrow> c \<noteq> [] \<and> \<not> tag_accepted L c \<and> \<not> summary_accepted L j))"

fun filter_by_region_and_contract ::
  "stdlib \<Rightarrow> job list \<Rightarrow> pystr list \<Rightarrow> bool \<Rightarrow> bool \<Rightarrow> job list" where
  "filter_by_region_and_contract L [] region_cities accept_contracts accept_remote = []"
| "filter_by_region_and_contract L (j # jobs) region_cities accept_contracts accept_remote =
     (if \<not> pass_ok L region_cities accept_remote j
      then filter_by_region_and_contract L jobs region_cities accept_contracts accept_remote
      else if contract_rejects L accept_contracts j
      then filter_by_region_and_contract L jobs region_cities accept_contracts accept_remote
      else j # filter_by_region_and_contract L jobs region_cities accept_contracts accept_remote)"

section \<open>Fingerprints\<close>

text \<open>
  \<open>get_job_id_from_link\<close> is \<open>hashlib.sha1(link.encode("utf-8")).hexdigest()\<close>.
  \<open>str.encode\<close> raises \<open>UnicodeEncodeError\<close> on a surrogate code point (\<open>None\<close>;
  so does the model on a number that is no code point). Bytes are numbers below 256 and
  SHA-1 (FIPS 180-4) works on numbers below \<open>2 ^ 32\<close>, with the wrap-around written
  out; the message schedule is kept as a window of sixteen words that moves by one word
  each round.
\<close>

definition utf8_cp :: "nat \<Rightarrow> nat list option" where
  "utf8_cp c =
     (if c < 128 then Some [c]
      else if c < 2048 then Some [192 + c div 64, 128 + c mod 64]
      else if 55296 \<le> c \<and> c < 57344 then None
      else if c < 65536 then
        Some [224 + c div 4096, 128 + c div 64 mod 64, 128 + c mod 64]
      else if c < 1114112 then
        Some [240 + c div 262144, 128 + c div 4096 mod 64, 128 + c div 64 mod 64,
              128 + c mod 64]
      else None)"

fun utf8_encode :: "pystr \<Rightarrow> nat list option" where
  "utf8_encode [] = Some []"
| "utf8_encode (c # cs) =
     (case utf8_cp c of
        None \<Rightarrow> None
      | Some bs \<Rightarrow> (case utf8_encode cs of None \<Rightarrow> None | Some rest \<Rightarrow> Some (bs @ rest)))"

definition add32 :: "nat \<Rightarrow> nat \<Rightarrow> nat" where
  "add32 x y = (x + y) mod 4294967296"

definition rotl32 :: "nat \<Rightarrow> nat \<Rightarrow> nat" where
  "rotl32 n x = (x * 2 ^ n) mod 4294967296 + x div 2 ^ (32 - n)"

definition not32 :: "nat \<Rightarrow> nat" where
  "not32 x = 4294967295 - x"

definition sha1_pad :: "nat list \<Rightarrow> nat list" where
  "sha1_pad msg =
     msg @ [128] @ replicate ((119 - length msg mod 64) mod 64) 0
       @ map (\<lambda>i. (8 * length msg) div 256 ^ (7 - i) mod 256) [0..<8]"

fun be_words :: "nat list \<Rightarrow> nat list" where
  "be_words (a # b # c # d # bs) = (((a * 256 + b) * 256 + c) * 256 + d) # be_words bs"
| "be_words bs = []"

definition sha1_f :: "nat \<Rightarrow> nat \<Rightarrow> nat \<Rightarrow> nat \<Rightarrow> nat" where
  "sha1_f t b c d =
     (if t < 20 then (b AND c) OR (not32 b AND d)
      else if t < 40 then b XOR c XOR d
      else if t < 60 then (b AND c) OR (b AND d) OR (c AND d)
      else b XOR c XOR d)"

definition sha1_k :: "nat \<Rightarrow> nat" where
  "sha1_k t =
     (if t < 20 then 0x5A827999 else if t < 40 then 0x6ED9EBA1
      else if t < 60 then 0x8F1BBCDC else 0xCA62C1D6)"

type_synonym sha1_state = "nat \<times> nat \<times> nat \<times> nat \<times> nat"

fun sha1_round :: "nat list \<times> sha1_state \<Rightarrow> nat \<Rightarrow> nat list \<times> sha1_state" where
  "sha1_round ([w0, w1, w2, w3, w4, w5, w6, w7, w8, w9, w10, w11, w12, w13, w14, w15],
               (a, b, c, d, e)) t =
     ([w1, w2, w3, w4, w5, w6, w7, w8, w9, w10, w11, w12, w13, w14, w15,
       rotl32 1 (w13 XOR w8 XOR w2 XOR w0)],
      (add32 (add32 (add32 (add32 (rotl32 5 a) (sha1_f t b c d)) e) (sha1_k t)) w0,
       a, rotl32 30 b, c, d))"
| "sha1_round s t = s"

fun sha1_block :: "sha1_state \<Rightarrow> nat list \<Rightarrow> sha1_state" where
  "sha1_block (h0, h1, h2, h3, h4) block =
     (case snd (foldl sha1_round (be_words block, (h0, h1, h2, h3, h4)) [0..<80]) of
        (a, b, c, d, e) \<Rightarrow> (add32 h0 a, add32 h1 b, add32 h2 c, add32 h3 d, add32 h4 e))"

fun sha1_blocks :: "sha1_state \<Rightarrow> nat list \<Rightarrow> sha1_state" where
  "sha1_blocks h [] = h"
| "sha1_blocks h (b # bs) = sha1_blocks (sha1_block h (take 64 (b # bs))) (drop 64 (b # bs))"

definition sha1 :: "nat list \<Rightarrow> sha1_state" where
  "sha1 msg =
     sha1_blocks (0x67452301, 0xEFCDAB89, 0x98BADCFE, 0x10325476, 0xC3D2E1F0) (sha1_pad msg)"

definition hex_digit :: "nat \<Rightarrow> nat" where
  "hex_digit n = (if n < 10 then 48 + n else 87 + n)"

definition hex32 :: "nat \<Rightarrow> pystr" where
  "hex32 w = map (\<lambda>i. hex_digit (w div 16 ^ (7 - i) mod 16)) [0..<8]"

fun hexdigest :: "sha1_state \<Rightarrow> pystr" where
  "hexdigest (h0, h1, h2, h3, h4) = hex32 h0 @ hex32 h1 @ hex32 h2 @ hex32 h3 @ hex32 h4"

definition get_job_id_from_link :: "pystr \<Rightarrow> pystr option" where
  "get_job_id_from_link lnk = map_option (\<lambda>bs. hexdigest (sha1 bs)) (utf8_encode lnk)"

section \<open>The listing fetcher and the record extractor\<close>

text \<open>
  A listing fragment is what \<open>parse_indeed_search\<close> reads off a BeautifulSoup tag \<open>c\<close>:
  the stripped text of the sub-elements it selects (\<open>None\<close> when \<open>select_one\<close> finds
  nothing), the text of the whole fragment and the \<open>href\<close> attributes.
  \<open>inner_a\<close> is \<open>c.select_one("a")\<close>: \<open>None\<close> when there is no such tag, otherwise
  the value of its \<open>get("href")\<close>.
\<close>

record card =
  h2_text :: "pystr option"
  card_text :: pystr
  href :: "pystr option"
  inner_a :: "pystr option option"
  companyName :: "pystr option"
  company_tag :: "pystr option"
  companyLocation :: "pystr option"
  location_tag :: "pystr option"
  job_snippet :: "pystr option"
  summary_tag :: "pystr option"

text \<open>
  \<open>a or b\<close> on two tags: a tag is always true, so the first one found wins.
  \<open>a or b\<close> on the \<open>href\<close> strings: \<open>None\<close> and the empty string are false.
\<close>

definition or_tag :: "pystr option \<Rightarrow> pystr option \<Rightarrow> pystr option" where
  "or_tag a b = (case a of None \<Rightarrow> b | Some t \<Rightarrow> Some t)"

definition truthy :: "pystr option \<Rightarrow> bool" where
  "truthy v = (case v of None \<Rightarrow> False | Some s \<Rightarrow> s \<noteq> [])"

definition card_href :: "card \<Rightarrow> pystr option" where
  "card_href c =
     (if truthy (href c) then href c
      else (case inner_a c of None \<Rightarrow> None | Some h \<Rightarrow> h))"

definition text_or_empty :: "pystr option \<Rightarrow> pystr" where
  "text_or_empty t = (case t of None \<Rightarrow> [] | Some s \<Rightarrow> s)"

text \<open>
  The contract tag: the first keyword of \<open>CONTRACT_KEYWORDS\<close>, in list order, whose
  upper-cased form occurs in the upper-cased text (\<open>for ... break\<close>).
\<close>

definition whole_text :: "stdlib \<Rightarrow> pystr \<Rightarrow> pystr \<Rightarrow> pystr \<Rightarrow> pystr \<Rightarrow> pystr" where
  "whole_text L t c l s = str_upper L (t @ str '' '' @ c @ str '' '' @ l @ str '' '' @ s)"

definition detect_contract :: "stdlib \<Rightarrow> pystr \<Rightarrow> pystr option" where
  "detect_contract L txt = find (\<lambda>kw. sublist (str_upper L kw) txt) CONTRACT_KEYWORDS"

text \<open>
  One pass of the loop over the cards: the fragment is skipped (\<open>continue\<close>), or an
  exception leaves the loop (\<open>urljoin\<close> or \<open>encode\<close> raised), or a record is appended.
\<close>

datatype extraction = Skipped | Raised | Extracted job

definition extract_card :: "stdlib \<Rightarrow> card \<Rightarrow> extraction" where
  "extract_card L c =
     (let t = (case h2_text c of Some h \<Rightarrow> h | None \<Rightarrow> take 80 (card_text c))
      in if \<not> truthy (card_href c) then Skipped
         else (case urljoin L (str ''https://fr.indeed.com'') (text_or_empty (card_href c)) of
                 None \<Rightarrow> Raised
               | Some lnk \<Rightarrow>
                   (let comp = text_or_empty (or_tag (companyName c) (company_tag c));
                        loc = text_or_empty (or_tag (companyLocation c) (location_tag c));
                        summ = text_or_empty (or_tag (job_snippet c) (summary_tag c));
                        tag = detect_contract L (whole_text L t comp loc summ)
                    in (case get_job_id_from_link lnk of
                          None \<Rightarrow> Raised
                        | Some i \<Rightarrow>
                            Extracted \<lparr> title = t, company = comp, location = loc,
                                        summary = summ, link = lnk, contract = tag,
                                        job_id = i \<rparr>))))"

text \<open>
  The loop over the cards of one page. The result is the list \<open>results\<close> and whether an
  exception ended the loop; the records appended before it stay in the list.
\<close>

fun extract_cards :: "stdlib \<Rightarrow> card list \<Rightarrow> job list \<Rightarrow> job list \<times> bool" where
  "extract_cards L [] results = (results, False)"
| "extract_cards L (c # cs) results =
     (case extract_card L c of
        Skipped \<Rightarrow> extract_cards L cs results
      | Raised \<Rightarrow> (results, True)
      | Extracted j \<Rightarrow> extract_cards L cs (results @ [j]))"

text \<open>
  A parsed page offers the three selections the parser tries in turn. A request either
  raises (so does a failure of the HTML parser) or returns a status code and a page. The
  network answers each request, numbered by the clock of the program (its count of
  requests so far), for a query, a location and an offset, from which \<open>make_indeed_url\<close>
  builds the address.
\<close>

record soup =
  tapItem :: "card list"
  job_seen_beacon_a :: "card list"
  article :: "card list"

datatype page_result = Get_raises | Response int soup

type_synonym http_get = "nat \<Rightarrow> pystr \<Rightarrow> pystr \<Rightarrow> nat \<Rightarrow> page_result"

definition select_cards :: "soup \<Rightarrow> card list" where
  "select_cards s =
     (let cards = (if tapItem s \<noteq> [] then tapItem s else job_seen_beacon_a s)
      in if cards = [] then article s else cards)"

fun parse_pages ::
  "stdlib \<Rightarrow> http_get \<Rightarrow> pystr \<Rightarrow> pystr \<Rightarrow> nat list \<Rightarrow> job list \<times> nat \<Rightarrow> job list \<times> nat" where
  "parse_pages L get query loc [] (results, clk) = (results, clk)"
| "parse_pages L get query loc (page # pages) (results, clk) =
     (case get clk query loc (page * 10) of
        Get_raises \<Rightarrow> (results, Suc clk)
      | Response status s \<Rightarrow>
          if status \<noteq> 200 then (results, Suc clk)
          else if select_cards s = [] then (results, Suc clk)
          else (case extract_cards L (select_cards s) results of
                  (results', True) \<Rightarrow> (results', Suc clk)
                | (results', False) \<Rightarrow> parse_pages L get query loc pages (results', Suc clk)))"

definition parse_indeed_search ::
  "stdlib \<Rightarrow> http_get \<Rightarrow> pystr \<Rightarrow> pystr \<Rightarrow> nat \<Rightarrow> nat \<Rightarrow> job list \<times> nat" where
  "parse_indeed_search L get query loc max_pages clk =
     parse_pages L get query loc [0..<max_pages] ([], clk)"

section \<open>The notifier\<close>

text \<open>
  \<open>format_job_message\<close>. The pictographs of the template are the code points
  U+1F514, U+1F3E2, U+2014, U+1F4CD and U+1F9FE; lines are joined by U+000A.
\<close>

fun join_lines :: "pystr list \<Rightarrow> pystr" where
  "join_lines [] = []"
| "join_lines [l] = l"
| "join_lines (l # ls) = l @ [10] @ join_lines ls"

definition format_job_message :: "job \<Rightarrow> pystr" where
  "format_job_message j =
     join_lines
       ([[128276] @ str '' '' @ title j,
         [127970] @ str '' '' @ company j @ str '' '' @ [8212] @ str '' '' @ [128205]
           @ str '' '' @ location j]
        @ (if truthy (contract j)
           then [[129534] @ str '' Contrat: '' @ text_or_empty (contract j)] else [])
        @ [link j]
        @ (if summary j \<noteq> []
           then [[], take 400 (summary j) @ (if length (summary j) > 400 then str ''...'' else [])]
           else []))"

text \<open>
  \<open>send_telegram_message\<close>. The request either raises or returns a status code;
  \<open>except Exception\<close> turns the exception into \<open>False\<close>.
\<close>

record payload =
  chat_id :: pystr
  message_text :: pystr
  disable_web_page_preview :: bool

datatype post_result = Post_raises | Post_status int

type_synonym http_post = "pystr \<Rightarrow> payload \<Rightarrow> post_result"

definition telegram_url :: "pystr \<Rightarrow> pystr" where
  "telegram_url token = str ''https://api.telegram.org/bot'' @ token @ str ''/sendMessage''"

definition telegram_payload :: "pystr \<Rightarrow> pystr \<Rightarrow> payload" where
  "telegram_payload chat txt =
     \<lparr> chat_id = chat, message_text = txt, disable_web_page_preview = False \<rparr>"

definition send_telegram_message :: "http_post \<Rightarrow> pystr \<Rightarrow> pystr \<Rightarrow> pystr \<Rightarrow> bool" where
  "send_telegram_message post token chat txt =
     (case post (telegram_url token) (telegram_payload chat txt) of
        Post_raises \<Rightarrow> False
      | Post_status code \<Rightarrow> code = 200)"

section \<open>The fingerprint store\<close>

text \<open>
  The seen set is a Python set of hashable values, modelled by its membership: the
  identifiers are strings; a file written by hand may also hold \<open>null\<close> and numbers.
  \<open>pynum\<close> stands for the Python numbers (\<open>bool\<close>, \<open>int\<close>, \<open>float\<close>) taken up to
  \<open>==\<close>; the program never computes with them.
\<close>

typedecl pynum

datatype pyval = PNone | PNum pynum | PStr pystr

datatype json = JScalar pyval | JArray "json list" | JObject "(pystr \<times> json) list"

text \<open>
  The exceptions that reading the file can raise, all of them subclasses of
  \<open>Exception\<close>: \<open>open\<close> and \<open>read\<close> (\<open>OSError\<close>, \<open>UnicodeDecodeError\<close>),
  \<open>json.load\<close> (\<open>JSONDecodeError\<close>, \<open>RecursionError\<close>) and \<open>set(data)\<close>
  (\<open>TypeError\<close>).
\<close>

datatype py_exception =
  OSError | UnicodeDecodeError | JSONDecodeError | RecursionError | TypeError

text \<open>
  The state of \<open>seen.json\<close> when \<open>load_seen\<close> runs: no such file
  (\<open>os.path.exists\<close> is false), a file whose reading or parsing raises, or a file
  that parses to a JSON value.
\<close>

datatype seen_file = Absent | Unreadable py_exception | Holds json

text \<open>
  \<open>set(data)\<close>: the elements of a list, which must all be hashable (a list or a
  dictionary among them raises \<open>TypeError\<close>); the keys of a dictionary; the characters
  of a string; \<open>None\<close> and numbers are not iterable.
\<close>

fun hashable :: "json \<Rightarrow> pyval option" where
  "hashable (JScalar v) = Some v"
| "hashable (JArray xs) = None"
| "hashable (JObject kvs) = None"

fun py_set :: "json \<Rightarrow> py_exception + pyval set" where
  "py_set (JArray xs) =
     (if list_all (\<lambda>x. hashable x \<noteq> None) xs
      then Inr (set (List.map_filter hashable xs)) else Inl TypeError)"
| "py_set (JObject kvs) = Inr (set (map (\<lambda>kv. PStr (fst kv)) kvs))"
| "py_set (JScalar (PStr s)) = Inr (set (map (\<lambda>c. PStr [c]) s))"
| "py_set (JScalar PNone) = Inl TypeError"
| "py_set (JScalar (PNum n)) = Inl TypeError"

text \<open>The body of the \<open>try\<close> block, and \<open>load_seen\<close> with its handler.\<close>

definition read_seen :: "seen_file \<Rightarrow> py_exception + pyval set" where
  "read_seen f =
     (case f of
        Absent \<Rightarrow> Inl OSError
      | Unreadable e \<Rightarrow> Inl e
      | Holds data \<Rightarrow> py_set data)"

definition load_seen :: "seen_file \<Rightarrow> py_exception + pyval set" where
  "load_seen f =
     (if f = Absent then Inr {}
      else (case read_seen f of
              Inl e \<Rightarrow> Inr {}
            | Inr s \<Rightarrow> Inr s))"

section \<open>One cycle of the poll loop\<close>

text \<open>
  The world outside the program: the answers of the search site and of the messaging
  endpoint to the request with a given number, and whether writing \<open>seen.json\<close> at
  that moment raises.
\<close>

record world =
  site :: http_get
  endpoint :: "nat \<Rightarrow> http_post"
  write_raises :: "nat \<Rightarrow> bool"

text \<open>
  The state of \<open>main_loop\<close>: the number of requests made so far, the set \<open>seen\<close>, and
  the history of what the loop has done to the seen set and to the endpoint, oldest first:
  \<open>seen.add(id)\<close>, a call of \<open>send_telegram_message\<close> for a record with its result,
  and a completed \<open>save_seen(seen)\<close>.
\<close>

datatype effect = Seen_add pystr | Send job bool | Save_seen "pyval set"

record bot =
  clock :: nat
  seen :: "pyval set"
  history :: "effect list"

text \<open>The loop \<open>for j in candidates\<close> of the regional sweep.\<close>

fun collect_new :: "job list \<Rightarrow> job list \<times> bot \<Rightarrow> job list \<times> bot" where
  "collect_new [] (all_new, s) = (all_new, s)"
| "collect_new (j # js) (all_new, s) =
     (if PStr (job_id j) \<notin> seen s
      then collect_new js
             (all_new @ [j],
              s\<lparr> seen := insert (PStr (job_id j)) (seen s),
                 history := history s @ [Seen_add (job_id j)] \<rparr>)
      else collect_new js (all_new, s))"

text \<open>
  The same loop in the remote sweep, behind the second look at the location and the
  summary.
\<close>

definition remote_recheck :: "stdlib \<Rightarrow> job \<Rightarrow> bool" where
  "remote_recheck L j =
     (sublist teletravail (str_lower L (location j @ str '' '' @ summary j))
      \<or> sublist (str ''remote'') (str_lower L (location j @ str '' '' @ summary j)))"

fun collect_new_remote :: "stdlib \<Rightarrow> job list \<Rightarrow> job list \<times> bot \<Rightarrow> job list \<times> bot" where
  "collect_new_remote L [] (all_new, s) = (all_new, s)"
| "collect_new_remote L (j # js) (all_new, s) =
     (if remote_recheck L j
      then (if PStr (job_id j) \<notin> seen s
            then collect_new_remote L js
                   (all_new @ [j],
                    s\<lparr> seen := insert (PStr (job_id j)) (seen s),
                       history := history s @ [Seen_add (job_id j)] \<rparr>)
            else collect_new_remote L js (all_new, s))
      else collect_new_remote L js (all_new, s))"

text \<open>The regional sweep: every title with every city, one page each.\<close>

fun sweep_cities ::
  "stdlib \<Rightarrow> world \<Rightarrow> pystr \<Rightarrow> pystr list \<Rightarrow> job list \<times> bot \<Rightarrow> job list \<times> bot" where
  "sweep_cities L W t [] (all_new, s) = (all_new, s)"
| "sweep_cities L W t (city # cities) (all_new, s) =
     (case parse_indeed_search L (site W) t city 1 (clock s) of
        (jobs, clk) \<Rightarrow>
          sweep_cities L W t cities
            (collect_new (filter_by_region_and_contract L jobs BRETAGNE_CITIES True False)
               (all_new, s\<lparr> clock := clk \<rparr>)))"

fun sweep_regional ::
  "stdlib \<Rightarrow> world \<Rightarrow> pystr list \<Rightarrow> job list \<times> bot \<Rightarrow> job list \<times> bot" where
  "sweep_regional L W [] acc = acc"
| "sweep_regional L W (t # ts) acc =
     sweep_regional L W ts (sweep_cities L W t BRETAGNE_CITIES acc)"

text \<open>The remote sweep: every title, with the remote qualifier, over the whole country.\<close>

fun sweep_remote ::
  "stdlib \<Rightarrow> world \<Rightarrow> pystr list \<Rightarrow> job list \<times> bot \<Rightarrow> job list \<times> bot" where
  "sweep_remote L W [] (all_new, s) = (all_new, s)"
| "sweep_remote L W (t # ts) (all_new, s) =
     (case parse_indeed_search L (site W) (t @ str '' '' @ teletravail) (str ''France'') 1
             (clock s) of
        (jobs, clk) \<Rightarrow>
          sweep_remote L W ts
            (collect_new_remote L
               (filter_by_region_and_contract L jobs BRETAGNE_CITIES True True)
               (all_new, s\<lparr> clock := clk \<rparr>)))"

definition collect :: "stdlib \<Rightarrow> world \<Rightarrow> bot \<Rightarrow> job list \<times> bot" where
  "collect L W s = sweep_remote L W TITLES (sweep_regional L W TITLES ([], s))"

text \<open>The loop \<open>for j in all_new\<close>: one message for each new record, whatever the results.\<close>

fun notify_all :: "world \<Rightarrow> pystr \<Rightarrow> pystr \<Rightarrow> job list \<Rightarrow> bot \<Rightarrow> bot" where
  "notify_all W token chat [] s = s"
| "notify_all W token chat (j # js) s =
     notify_all W token chat js
       (s\<lparr> clock := Suc (clock s),
          history := history s
            @ [Send j (send_telegram_message (endpoint W (clock s)) token chat
                         (format_job_message j))] \<rparr>)"

text \<open>
  \<open>save_seen\<close> has no handler: when the write raises, the exception leaves
  \<open>main_loop\<close> and the process ends (\<open>True\<close> in the second component).
\<close>

definition save_seen :: "world \<Rightarrow> bot \<Rightarrow> bot \<times> bool" where
  "save_seen W s =
     (if write_raises W (clock s) then (s, True)
      else (s\<lparr> history := history s @ [Save_seen (seen s)] \<rparr>, False))"

text \<open>
  The body of \<open>while True\<close> up to the sleep: both sweeps, then the notifications and the
  save when something new was found.
\<close>

definition cycle :: "stdlib \<Rightarrow> world \<Rightarrow> pystr \<Rightarrow> pystr \<Rightarrow> bot \<Rightarrow> bot \<times> bool" where
  "cycle L W token chat s =
     (case collect L W s of
        (all_new, s1) \<Rightarrow>
          if all_new \<noteq> [] then save_seen W (notify_all W token chat all_new s1)
          else (s1, False))"

section \<open>What the sweeps maintain\<close>

text \<open>
  While the two sweeps run from the state \<open>s0\<close>, the history has grown by one
  \<open>seen.add\<close> for each record of \<open>all_new\<close>, in order, and by nothing else, and the
  seen set has grown by the identifiers of these records.
\<close>

definition collected :: "bot \<Rightarrow> job list \<times> bot \<Rightarrow> bool" where
  "collected s0 acc =
     (history (snd acc) = history s0 @ map (\<lambda>j. Seen_add (job_id j)) (fst acc)
      \<and> seen (snd acc) = seen s0 \<union> (\<lambda>j. PStr (job_id j)) ` set (fst acc))"

section \<open>Sample records\<close>

definition job_remote_location :: job where
  "job_remote_location =
     \<lparr> title = str ''Data entry clerk'', company = str ''Acme'', location = str ''Remote'',
       summary = str ''Saisie de factures'', link = str ''https://fr.indeed.com/rc/clk?jk=1'',
       contract = None, job_id = str ''1'' \<rparr>"

definition job_stage :: job where
  "job_stage =
     \<lparr> title = str ''Op'' @ [233] @ str ''rateur de saisie'', company = str ''Acme'',
       location = str ''Rennes'', summary = str ''Contrat de 6 mois'',
       link = str ''https://fr.indeed.com/rc/clk?jk=2'',
       contract = Some (str ''Stage''), job_id = str ''2'' \<rparr>"

definition job_cdi_full :: job where
  "job_cdi_full =
     \<lparr> title = str ''Op'' @ [233] @ str ''rateur de saisie'', company = str ''Acme'',
       location = str ''Rennes'', summary = str ''Saisie de factures'',
       link = str ''https://fr.indeed.com/rc/clk?jk=3'',
       contract = Some (str ''CDI temps plein''), job_id = str ''3'' \<rparr>"

definition job_paris_remote :: job where
  "job_paris_remote =
     \<lparr> title = str ''Op'' @ [233] @ str ''rateur de saisie'', company = str ''Acme'',
       location = str ''Paris'',
       summary = str ''Poste en t'' @ [233] @ str ''l'' @ [233] @ str ''travail complet'',
       link = str ''https://fr.indeed.com/rc/clk?jk=4'',
       contract = None, job_id = str ''4'' \<rparr>"

definition job_rennes :: job where
  "job_rennes =
     \<lparr> title = str ''Op'' @ [233] @ str ''rateur de saisie'', company = [],
       location = str ''Rennes'', summary = [],
       link = str ''https://fr.indeed.com/rc/clk?jk=5'',
       contract = None, job_id = str ''5'' \<rparr>"

section \<open>Sample pages, requests and files\<close>

definition card_a1 :: card where
  "card_a1 =
     \<lparr> h2_text = Some (str ''Op'' @ [233] @ str ''rateur de saisie''),
       card_text = str ''Op'' @ [233] @ str ''rateur de saisie Acme Rennes Mission en CDD'',
       href = Some (str ''/rc/clk?jk=a1''), inner_a = None,
       companyName = Some (str ''Acme''), company_tag = None,
       companyLocation = Some (str ''Rennes''), location_tag = None,
       job_snippet = Some (str ''Mission en CDD de 6 mois''), summary_tag = None \<rparr>"

definition card_b2 :: card where
  "card_b2 =
     \<lparr> h2_text = None, card_text = str ''Agent de saisie Brest'',
       href = None, inner_a = Some (Some (str ''/rc/clk?jk=b2'')),
       companyName = None, company_tag = None,
       companyLocation = None, location_tag = Some (str ''Brest''),
       job_snippet = None, summary_tag = None \<rparr>"

definition job_a1 :: job where
  "job_a1 =
     \<lparr> title = str ''Op'' @ [233] @ str ''rateur de saisie'', company = str ''Acme'',
       location = str ''Rennes'', summary = str ''Mission en CDD de 6 mois'',
       link = str ''https://fr.indeed.com/rc/clk?jk=a1'', contract = Some (str ''CDD''),
       job_id = str ''150c4bf0feff4ffb0a99a825eab3b63015358fbd'' \<rparr>"

definition job_b2 :: job where
  "job_b2 =
     \<lparr> title = str ''Agent de saisie Brest'', company = [],
       location = str ''Brest'', summary = [],
       link = str ''https://fr.indeed.com/rc/clk?jk=b2'', contract = None,
       job_id = str ''b7bc7c7981c88b79fd5e2b7c0bdabdc9cf60164d'' \<rparr>"

definition site_one_page :: http_get where
  "site_one_page clk query loc start =
     (if clk = 0
      then Response 200 \<lparr> tapItem = [card_a1, card_b2], job_seen_beacon_a = [], article = [] \<rparr>
      else Get_raises)"

definition post_created :: http_post where
  "post_created url p = Post_status 201"

definition file_abc123 :: seen_file where
  "file_abc123 = Holds (JArray [JScalar (PStr (str ''abc123''))])"

definition endpoint_first_fails :: "nat \<Rightarrow> http_post" where
  "endpoint_first_fails k url p = (if k = 54 then Post_status 500 else Post_status 200)"

definition world_one_page :: world where
  "world_one_page =
     \<lparr> site = site_one_page, endpoint = endpoint_first_fails, write_raises = (\<lambda>k. False) \<rparr>"

definition bot_start :: bot where
  "bot_start = \<lparr> clock = 0, seen = {}, history = [] \<rparr>"

section \<open>Properties of the eligibility filter\<close>

lemma filter_by_region_and_contract_conv:
  "filter_by_region_and_contract L jobs rc ac ar =
     filter (\<lambda>j. pass_ok L rc ar j \<and> \<not> contract_rejects L ac j) jobs"
  by (induction jobs) simp_all

lemma set_filter_by_region_and_contract:
  "set (filter_by_region_and_contract L jobs rc ac ar) =
     {j \<in> set jobs. pass_ok L rc ar j \<and> \<not> contract_rejects L ac j}"
  by (simp add: filter_by_region_and_contract_conv)

lemmas eval_str = str_def sublist_code(3) lower_cp_def upper_cp_def latin1_lib_def

lemmas eval_filter =
  job_loc_def job_text_def teletravail_def is_remote_def in_region_def pass_ok_def
  tag_accepted_def summary_keywords_def summary_accepted_def contract_rejects_def
  BRETAGNE_CITIES_def CONTRACT_KEYWORDS_def

subsection \<open>Remote markers\<close>

text \<open>
  C1. The claim: \<open>is_remote\<close> holds exactly when the location or the title/summary text
  contains one of the markers, each marker being looked for in the location too.
  The source looks for only one marker in the location. A posting whose location is
  \<open>Remote\<close> (lower-cased, it contains the marker \<open>remote\<close>) and whose title and summary
  carry no marker is not remote for the filter, and the filter of the remote sweep
  (\<open>accept_remote=True\<close>) drops it.
\<close>

theorem is_remote_misses_location_marker:
  "sublist (str ''remote'') (str_lower latin1_lib (location job_remote_location))
   \<and> \<not> is_remote latin1_lib job_remote_location
   \<and> filter_by_region_and_contract latin1_lib [job_remote_location] BRETAGNE_CITIES True True = []"
  by (simp add: job_remote_location_def eval_str eval_filter)

subsection \<open>The contract gate\<close>

text \<open>
  C2, as stated, fails twice. A record in the region with the tag \<open>Stage\<close> and the
  summary \<open>Contrat de 6 mois\<close> is dropped although its summary contains \<open>Contrat\<close>, a
  keyword of the tag check: the summary is searched for the four keywords of its own tuple.
  A record with the tag \<open>CDI temps plein\<close>, which is not one of the keywords, and a summary
  without any keyword is kept: the tag check is a substring test.
\<close>

theorem contract_gate_counterexample:
  "(pass_ok latin1_lib BRETAGNE_CITIES False job_stage
    \<and> contract job_stage = Some (str ''Stage'')
    \<and> sublist (str_lower latin1_lib (str ''Contrat'')) (str_lower latin1_lib (summary job_stage))
    \<and> str ''Contrat'' \<in> set CONTRACT_KEYWORDS
    \<and> filter_by_region_and_contract latin1_lib [job_stage] BRETAGNE_CITIES True False = [])
   \<and> (contract job_cdi_full = Some (str ''CDI temps plein'')
    \<and> str ''CDI temps plein'' \<notin> set CONTRACT_KEYWORDS
    \<and> \<not> sublist (str_lower latin1_lib (str ''CDI''))
            (str_lower latin1_lib (summary job_cdi_full))
    \<and> \<not> sublist (str_lower latin1_lib (str ''CDD''))
            (str_lower latin1_lib (summary job_cdi_full))
    \<and> \<not> sublist (str_lower latin1_lib (str ''Int'' @ [233] @ str ''rim''))
            (str_lower latin1_lib (summary job_cdi_full))
    \<and> \<not> sublist (str_lower latin1_lib (str ''Interim''))
            (str_lower latin1_lib (summary job_cdi_full))
    \<and> \<not> sublist (str_lower latin1_lib (str ''Contrat''))
            (str_lower latin1_lib (summary job_cdi_full))
    \<and> filter_by_region_and_contract latin1_lib [job_cdi_full] BRETAGNE_CITIES True False
        = [job_cdi_full])"
  by (simp add: job_stage_def job_cdi_full_def eval_str eval_filter)

text \<open>
  C2, amended. With \<open>accept_contracts\<close> true, a record that passes the locality gate and
  has a non-empty tag is kept exactly when the upper-cased tag contains the upper-cased form
  of one of the five contract keywords, or the lower-cased summary contains one of the four
  keywords \<open>cdi\<close>, \<open>cdd\<close>, \<open>int\<close>+U+00E9+\<open>rim\<close>, \<open>interim\<close>; otherwise it is
  rejected.
\<close>

theorem contract_gate_decision:
  assumes "j \<in> set jobs" and "pass_ok L region_cities accept_remote j"
    and "contract j = Some c" and "c \<noteq> []"
  shows "j \<in> set (filter_by_region_and_contract L jobs region_cities True accept_remote)
     \<longleftrightarrow> (\<exists>kw \<in> set CONTRACT_KEYWORDS. sublist (str_upper L kw) (str_upper L c))
       \<or> (\<exists>kw \<in> set summary_keywords. sublist (str_lower L kw) (str_lower L (summary j)))"
  using assms
  by (simp add: set_filter_by_region_and_contract contract_rejects_def tag_accepted_def
      summary_accepted_def list_ex_iff)

theorem contract_gate_decision_witness:
  "job_stage \<in> set [job_stage] \<and> pass_ok latin1_lib BRETAGNE_CITIES False job_stage
   \<and> contract job_stage = Some (str ''Stage'') \<and> str ''Stage'' \<noteq> []
   \<and> \<not> tag_accepted latin1_lib (str ''Stage'')
   \<and> \<not> summary_accepted latin1_lib job_stage
   \<and> job_stage \<notin> set (filter_by_region_and_contract latin1_lib [job_stage]
         BRETAGNE_CITIES True False)"
proof -
  have a: "job_stage \<in> set [job_stage]" by simp
  have b: "pass_ok latin1_lib BRETAGNE_CITIES False job_stage"
    by (simp add: job_stage_def eval_str eval_filter)
  have c: "contract job_stage = Some (str ''Stage'')" by (simp add: job_stage_def)
  have d: "str ''Stage'' \<noteq> []" by (simp add: str_def)
  have e: "\<not> tag_accepted latin1_lib (str ''Stage'')"
    by (simp add: eval_str eval_filter)
  have f: "\<not> summary_accepted latin1_lib job_stage"
    by (simp add: job_stage_def eval_str eval_filter)
  from contract_gate_decision [OF a b c d] e f a b c d show ?thesis
    by (simp add: tag_accepted_def summary_accepted_def list_ex_iff)
qed

subsection \<open>Remote admission\<close>

text \<open>
  C3. With \<open>accept_remote\<close> true, a record of the batch for which \<open>is_remote\<close> holds passes
  the locality gate whatever \<open>in_region\<close> says, and is in the output whenever the contract
  gate does not reject it.
\<close>

theorem remote_admission:
  assumes "j \<in> set jobs" and "is_remote L j"
  shows "pass_ok L region_cities True j
     \<and> (\<not> contract_rejects L accept_contracts j \<longrightarrow>
          j \<in> set (filter_by_region_and_contract L jobs region_cities accept_contracts True))"
  using assms by (simp add: set_filter_by_region_and_contract pass_ok_def)

theorem remote_admission_witness:
  "job_paris_remote \<in> set [job_paris_remote] \<and> is_remote latin1_lib job_paris_remote
   \<and> \<not> in_region latin1_lib BRETAGNE_CITIES job_paris_remote
   \<and> \<not> contract_rejects latin1_lib True job_paris_remote
   \<and> pass_ok latin1_lib BRETAGNE_CITIES True job_paris_remote
   \<and> job_paris_remote \<in> set (filter_by_region_and_contract latin1_lib [job_paris_remote]
         BRETAGNE_CITIES True True)"
proof -
  have a: "job_paris_remote \<in> set [job_paris_remote]" by simp
  have b: "is_remote latin1_lib job_paris_remote"
    by (simp add: job_paris_remote_def eval_str eval_filter)
  have c: "\<not> in_region latin1_lib BRETAGNE_CITIES job_paris_remote"
    by (simp add: job_paris_remote_def eval_str eval_filter)
  have d: "\<not> contract_rejects latin1_lib True job_paris_remote"
    by (simp add: job_paris_remote_def contract_rejects_def)
  from remote_admission [OF a b, of BRETAGNE_CITIES True] a b c d show ?thesis by blast
qed

subsection \<open>Records without a contract tag\<close>

text \<open>
  C4. A record whose contract tag is \<open>None\<close> is never rejected by the contract gate, for
  either value of \<open>accept_contracts\<close>; if it is in the batch and passes the locality gate,
  it is in the output.
\<close>

theorem no_tag_passes_contract_gate:
  assumes "contract j = None"
  shows "\<not> contract_rejects L accept_contracts j
     \<and> (j \<in> set jobs \<and> pass_ok L region_cities accept_remote j \<longrightarrow>
          j \<in> set (filter_by_region_and_contract L jobs region_cities accept_contracts
                     accept_remote))"
  using assms by (simp add: set_filter_by_region_and_contract contract_rejects_def)

theorem no_tag_passes_contract_gate_witness:
  "contract job_rennes = None
   \<and> pass_ok latin1_lib BRETAGNE_CITIES False job_rennes
   \<and> \<not> contract_rejects latin1_lib True job_rennes
   \<and> job_rennes \<in> set (filter_by_region_and_contract latin1_lib [job_rennes]
         BRETAGNE_CITIES True False)"
proof -
  have a: "contract job_rennes = None" by (simp add: job_rennes_def)
  have b: "pass_ok latin1_lib BRETAGNE_CITIES False job_rennes"
    by (simp add: job_rennes_def eval_str eval_filter)
  have c: "job_rennes \<in> set [job_rennes]" by simp
  from no_tag_passes_contract_gate
         [OF a, of latin1_lib True "[job_rennes]" BRETAGNE_CITIES False]
    a b c show ?thesis by blast
qed

subsection \<open>Idempotence\<close>

text \<open>
  C6. Filtering the output of the filter again, with the same region list and the same two
  flags, returns that output: the same records in the same order.
\<close>

theorem filter_idempotent:
  "filter_by_region_and_contract L
     (filter_by_region_and_contract L jobs region_cities accept_contracts accept_remote)
     region_cities accept_contracts accept_remote
   = filter_by_region_and_contract L jobs region_cities accept_contracts accept_remote"
  by (simp add: filter_by_region_and_contract_conv)

section \<open>Properties of the extractor\<close>

subsection \<open>Evaluation of the fingerprint and of a sample page\<close>

lemma replicate_numeral: "replicate (numeral n) x = x # replicate (pred_numeral n) x"
  by (simp add: numeral_eq_Suc)

lemmas eval_sha1 =
  get_job_id_from_link_def sha1_def sha1_pad_def sha1_f_def sha1_k_def add32_def rotl32_def
  not32_def hex32_def hex_digit_def utf8_cp_def str_def replicate_numeral upt_conv_Cons

lemma id_a1:
  "get_job_id_from_link (str ''https://fr.indeed.com/rc/clk?jk=a1'')
     = Some (str ''150c4bf0feff4ffb0a99a825eab3b63015358fbd'')"
  by (simp add: eval_sha1)

lemma id_b2:
  "get_job_id_from_link (str ''https://fr.indeed.com/rc/clk?jk=b2'')
     = Some (str ''b7bc7c7981c88b79fd5e2b7c0bdabdc9cf60164d'')"
  by (simp add: eval_sha1)

lemmas eval_ids = id_a1 [unfolded str_def, simplified] id_b2 [unfolded str_def, simplified]

lemmas eval_extract =
  extract_card_def card_href_def truthy_def or_tag_def text_or_empty_def whole_text_def
  detect_contract_def select_cards_def parse_indeed_search_def CONTRACT_KEYWORDS_def Let_def

lemma parse_one_page:
  "parse_indeed_search latin1_lib site_one_page query loc 1 0 = ([job_a1, job_b2], 1)"
  by (simp add: eval_extract eval_str eval_ids site_one_page_def card_a1_def card_b2_def
      job_a1_def job_b2_def)

subsection \<open>What every extracted record satisfies\<close>

lemma extract_cards_invariant:
  assumes step: "\<And>c j. extract_card L c = Extracted j \<Longrightarrow> P j"
  shows "\<forall>r \<in> set results. P r \<Longrightarrow> \<forall>r \<in> set (fst (extract_cards L cs results)). P r"
proof (induction cs arbitrary: results)
  case Nil
  then show ?case by simp
next
  case (Cons c cs)
  show ?case
  proof (cases "extract_card L c")
    case Skipped
    with Cons show ?thesis by simp
  next
    case Raised
    with Cons.prems show ?thesis by simp
  next
    case (Extracted j)
    with step have "P j" by blast
    with Cons.prems have "\<forall>r \<in> set (results @ [j]). P r" by simp
    from Cons.IH [OF this] Extracted show ?thesis by simp
  qed
qed

lemma parse_pages_invariant:
  assumes step: "\<And>c j. extract_card L c = Extracted j \<Longrightarrow> P j"
  shows "\<forall>r \<in> set results. P r
    \<Longrightarrow> \<forall>r \<in> set (fst (parse_pages L get query loc pages (results, clk))). P r"
proof (induction pages arbitrary: results clk)
  case Nil
  then show ?case by simp
next
  case (Cons page pages)
  show ?case
  proof (cases "get clk query loc (page * 10)")
    case Get_raises
    with Cons.prems show ?thesis by simp
  next
    case (Response status s)
    obtain results' raised where ex: "extract_cards L (select_cards s) results = (results', raised)"
      by (cases "extract_cards L (select_cards s) results")
    from extract_cards_invariant [of L P results "select_cards s", OF step Cons.prems] ex
    have inv: "\<forall>r \<in> set results'. P r" by simp
    show ?thesis
    proof (cases "status = 200 \<and> select_cards s \<noteq> [] \<and> \<not> raised")
      case True
      with Response ex Cons.IH [OF inv, of "Suc clk"] show ?thesis by simp
    next
      case False
      with Response ex Cons.prems inv show ?thesis by (auto split: if_splits)
    qed
  qed
qed

lemma parse_indeed_search_invariant:
  assumes "\<And>c j. extract_card L c = Extracted j \<Longrightarrow> P j"
    and "r \<in> set (fst (parse_indeed_search L get query loc max_pages clk))"
  shows "P r"
  using parse_pages_invariant [of L P "[]" get query loc "[0..<max_pages]" clk, OF assms(1)]
    assms(2)
  by (simp add: parse_indeed_search_def)

lemma extract_card_link:
  assumes "extract_card L c = Extracted j"
  shows "get_job_id_from_link (link j) = Some (job_id j)
    \<and> (\<exists>h. urljoin L (str ''https://fr.indeed.com'') h = Some (link j))"
  using assms
  by (auto simp: extract_card_def Let_def split: if_splits option.splits)

lemma extract_card_contract:
  assumes "extract_card L c = Extracted j"
  shows "contract j
     = detect_contract L (whole_text L (title j) (company j) (location j) (summary j))"
  using assms
  by (auto simp: extract_card_def Let_def split: if_splits option.splits)

lemma detect_contract_keyword:
  assumes "detect_contract L txt = Some kw"
  shows "kw \<in> set CONTRACT_KEYWORDS \<and> sublist (str_upper L kw) txt"
  using assms unfolding detect_contract_def find_Some_iff by auto

lemma keyword_tag_accepted:
  assumes "kw \<in> set CONTRACT_KEYWORDS"
  shows "tag_accepted L kw"
  using assms unfolding tag_accepted_def list_ex_iff by blast

subsection \<open>The identifier\<close>

text \<open>
  C5. The identifier is a function of the link string: equal links have equal identifiers.
  Every record returned by \<open>parse_indeed_search\<close> carries in \<open>id\<close> the value of
  \<open>get_job_id_from_link\<close> at its \<open>link\<close> field, and that field is a result of
  \<open>urljoin\<close> against the base address of the site.
\<close>

theorem id_is_function_of_link:
  "(l1 = l2 \<longrightarrow> get_job_id_from_link l1 = get_job_id_from_link l2)
   \<and> (r \<in> set (fst (parse_indeed_search L get query loc max_pages clk)) \<longrightarrow>
        get_job_id_from_link (link r) = Some (job_id r)
        \<and> (\<exists>h. urljoin L (str ''https://fr.indeed.com'') h = Some (link r)))"
proof -
  have "get_job_id_from_link (link r) = Some (job_id r)
        \<and> (\<exists>h. urljoin L (str ''https://fr.indeed.com'') h = Some (link r))"
    if "r \<in> set (fst (parse_indeed_search L get query loc max_pages clk))"
    using parse_indeed_search_invariant [where P = "\<lambda>j. get_job_id_from_link (link j) = Some (job_id j)
        \<and> (\<exists>h. urljoin L (str ''https://fr.indeed.com'') h = Some (link j))", OF _ that]
      extract_card_link by blast
  then show ?thesis by blast
qed

theorem id_is_function_of_link_witness:
  "job_a1 \<in> set (fst (parse_indeed_search latin1_lib site_one_page (str ''saisie'') (str ''Rennes'') 1 0))
   \<and> link job_a1 = str ''https://fr.indeed.com/rc/clk?jk=a1''
   \<and> job_id job_a1 = str ''150c4bf0feff4ffb0a99a825eab3b63015358fbd''
   \<and> get_job_id_from_link (link job_a1) = Some (job_id job_a1)
   \<and> urljoin latin1_lib (str ''https://fr.indeed.com'') (str ''/rc/clk?jk=a1'') = Some (link job_a1)"
proof -
  have a: "job_a1 \<in> set (fst (parse_indeed_search latin1_lib site_one_page (str ''saisie'') (str ''Rennes'') 1 0))"
    unfolding parse_one_page by simp
  have b: "urljoin latin1_lib (str ''https://fr.indeed.com'') (str ''/rc/clk?jk=a1'') = Some (link job_a1)"
    by (simp add: latin1_lib_def job_a1_def str_def)
  from id_is_function_of_link [of "link job_a1" "link job_a1" job_a1 latin1_lib site_one_page
         "str ''saisie''" "str ''Rennes''" 1 0] a b
  show ?thesis by (simp add: job_a1_def)
qed

subsection \<open>The contract tag of an extracted record\<close>

text \<open>
  C10. For every record returned by \<open>parse_indeed_search\<close>, the contract tag is the
  first keyword of \<open>CONTRACT_KEYWORDS\<close>, in list order, whose upper-cased form occurs in
  the upper-cased text of title, company, location and summary joined by spaces, or
  \<open>None\<close> when there is none. It is thus \<open>None\<close> or an entry of the list, a tag that
  is not \<open>None\<close> passes the tag check of the filter, and the contract gate never rejects
  the record.
\<close>

theorem extracted_contract_is_keyword:
  assumes "r \<in> set (fst (parse_indeed_search L get query loc max_pages clk))"
  shows "contract r
       = find (\<lambda>kw. sublist (str_upper L kw)
                 (str_upper L (title r @ str '' '' @ company r @ str '' '' @ location r
                    @ str '' '' @ summary r))) CONTRACT_KEYWORDS
     \<and> (contract r = None \<or> (\<exists>kw \<in> set CONTRACT_KEYWORDS. contract r = Some kw))
     \<and> (\<forall>c. contract r = Some c \<longrightarrow> tag_accepted L c)
     \<and> \<not> contract_rejects L accept_contracts r"
proof -
  have c: "contract r
     = detect_contract L (whole_text L (title r) (company r) (location r) (summary r))"
    using parse_indeed_search_invariant [where P = "\<lambda>j. contract j
       = detect_contract L (whole_text L (title j) (company j) (location j) (summary j))",
       OF _ assms] extract_card_contract by blast
  have k: "kw \<in> set CONTRACT_KEYWORDS" if "contract r = Some kw" for kw
    using that c detect_contract_keyword by metis
  then have t: "tag_accepted L kw" if "contract r = Some kw" for kw
    using that keyword_tag_accepted by blast
  from c have "contract r
       = find (\<lambda>kw. sublist (str_upper L kw)
                 (str_upper L (title r @ str '' '' @ company r @ str '' '' @ location r
                    @ str '' '' @ summary r))) CONTRACT_KEYWORDS"
    by (simp add: detect_contract_def whole_text_def)
  moreover from k have "contract r = None \<or> (\<exists>kw \<in> set CONTRACT_KEYWORDS. contract r = Some kw)"
    by (cases "contract r") auto
  moreover from t have "\<not> contract_rejects L accept_contracts r"
    by (auto simp: contract_rejects_def split: option.splits)
  ultimately show ?thesis using t by blast
qed

theorem extracted_contract_is_keyword_witness:
  "job_a1 \<in> set (fst (parse_indeed_search latin1_lib site_one_page (str ''saisie'') (str ''Rennes'') 1 0))
   \<and> contract job_a1 = Some (str ''CDD'')
   \<and> str ''CDD'' \<in> set CONTRACT_KEYWORDS
   \<and> tag_accepted latin1_lib (str ''CDD'')
   \<and> \<not> contract_rejects latin1_lib True job_a1"
proof -
  have a: "job_a1 \<in> set (fst (parse_indeed_search latin1_lib site_one_page (str ''saisie'') (str ''Rennes'') 1 0))"
    unfolding parse_one_page by simp
  have b: "contract job_a1 = Some (str ''CDD'')" by (simp add: job_a1_def)
  from extracted_contract_is_keyword [OF a, of True] b
  show ?thesis using a by auto
qed

section \<open>Properties of the notifier and of the store\<close>

text \<open>
  C9, as stated, fails: a response with status 201, which is in the 200 class, is reported
  as a failure.
\<close>

theorem send_created_counterexample:
  "(200::int) \<le> 201 \<and> (201::int) < 300
   \<and> post_created (telegram_url (str ''TOKEN'')) (telegram_payload (str ''42'') (str ''hello''))
       = Post_status 201
   \<and> \<not> send_telegram_message post_created (str ''TOKEN'') (str ''42'') (str ''hello'')"
  by (simp add: send_telegram_message_def post_created_def)

text \<open>
  C9, amended. \<open>send_telegram_message\<close> returns \<open>True\<close> exactly when the request
  returns with the status code 200; for every other status code and when the request
  raises, it returns \<open>False\<close>. It always returns: the result is a truth value.
\<close>

theorem send_success_iff_200:
  "send_telegram_message post token chat txt
     \<longleftrightarrow> post (telegram_url token) (telegram_payload chat txt) = Post_status 200"
  by (simp add: send_telegram_message_def split: post_result.split)

lemma py_set_strings:
  "py_set (JArray (map (\<lambda>i. JScalar (PStr i)) ids)) = Inr (PStr ` set ids)"
proof -
  have a: "list_all (\<lambda>x. hashable x \<noteq> None) (map (\<lambda>i. JScalar (PStr i)) ids)"
    by (induction ids) simp_all
  have b: "List.map_filter hashable (map (\<lambda>i. JScalar (PStr i)) ids) = map PStr ids"
    by (induction ids) (simp_all add: List.map_filter_simps)
  show ?thesis by (simp only: py_set.simps a b if_True set_map)
qed

text \<open>
  C8. \<open>load_seen\<close> always returns a set and never an exception. The set is empty when
  the file does not exist and when reading the file, parsing it or building the set raises;
  otherwise it is the set built from the file's content, which for a file holding a list of
  identifiers is the set of these identifiers.
\<close>

theorem load_seen_total:
  "(\<exists>s. load_seen f = Inr s)
   \<and> load_seen Absent = Inr {}
   \<and> (read_seen f = Inl e \<longrightarrow> load_seen f = Inr {})
   \<and> (read_seen f = Inr s \<longrightarrow> load_seen f = Inr s)
   \<and> load_seen (Holds (JArray (map (\<lambda>i. JScalar (PStr i)) ids))) = Inr (PStr ` set ids)"
proof -
  have "load_seen (Holds (JArray (map (\<lambda>i. JScalar (PStr i)) ids))) = Inr (PStr ` set ids)"
    by (simp add: load_seen_def read_seen_def py_set_strings del: py_set.simps)
  moreover have "read_seen f = Inr s \<longrightarrow> f \<noteq> Absent"
    by (auto simp: read_seen_def)
  ultimately show ?thesis
    by (auto simp: load_seen_def split: sum.splits)
qed

theorem load_seen_total_witness:
  "read_seen (Unreadable JSONDecodeError) = Inl JSONDecodeError
   \<and> load_seen (Unreadable JSONDecodeError) = Inr {}
   \<and> read_seen (Holds (JScalar PNone)) = Inl TypeError
   \<and> load_seen (Holds (JScalar PNone)) = Inr {}
   \<and> read_seen (Holds (JArray [JArray []])) = Inl TypeError
   \<and> load_seen (Holds (JArray [JArray []])) = Inr {}
   \<and> read_seen file_abc123 = Inr {PStr (str ''abc123'')}
   \<and> load_seen file_abc123 = Inr {PStr (str ''abc123'')}"
proof -
  have a: "read_seen (Unreadable JSONDecodeError) = Inl JSONDecodeError"
    by (simp add: read_seen_def)
  have b: "read_seen (Holds (JScalar PNone)) = Inl TypeError"
    by (simp add: read_seen_def)
  have c: "read_seen (Holds (JArray [JArray []])) = Inl TypeError"
    by (simp add: read_seen_def)
  have d: "read_seen file_abc123 = Inr {PStr (str ''abc123'')}"
    by (simp add: read_seen_def file_abc123_def List.map_filter_simps)
  from load_seen_total [of "Unreadable JSONDecodeError" JSONDecodeError]
       load_seen_total [of "Holds (JScalar PNone)" TypeError]
       load_seen_total [of "Holds (JArray [JArray []])" TypeError]
       load_seen_total [of file_abc123 _ "{PStr (str ''abc123'')}"]
       a b c d
  show ?thesis by blast
qed

section \<open>Properties of the poll loop\<close>

subsection \<open>The sweeps and the notifications\<close>

lemma collected_start: "collected s ([], s)"
  by (simp add: collected_def)

lemma collected_clock: "collected s0 (all_new, s) \<Longrightarrow> collected s0 (all_new, s\<lparr> clock := k \<rparr>)"
  by (simp add: collected_def)

lemma collect_new_collected:
  "collected s0 (all_new, s) \<Longrightarrow> collected s0 (collect_new js (all_new, s))"
proof (induction js arbitrary: all_new s)
  case Nil
  then show ?case by simp
next
  case (Cons j js)
  show ?case
  proof (cases "PStr (job_id j) \<in> seen s")
    case True
    with Cons show ?thesis by simp
  next
    case False
    from Cons.prems have "collected s0 (all_new @ [j],
        s\<lparr> seen := insert (PStr (job_id j)) (seen s),
           history := history s @ [Seen_add (job_id j)] \<rparr>)"
      by (simp add: collected_def)
    from Cons.IH [OF this] False show ?thesis by simp
  qed
qed

lemma collect_new_remote_collected:
  "collected s0 (all_new, s) \<Longrightarrow> collected s0 (collect_new_remote L js (all_new, s))"
proof (induction js arbitrary: all_new s)
  case Nil
  then show ?case by simp
next
  case (Cons j js)
  show ?case
  proof (cases "remote_recheck L j \<and> PStr (job_id j) \<notin> seen s")
    case False
    with Cons show ?thesis by auto
  next
    case True
    from Cons.prems have "collected s0 (all_new @ [j],
        s\<lparr> seen := insert (PStr (job_id j)) (seen s),
           history := history s @ [Seen_add (job_id j)] \<rparr>)"
      by (simp add: collected_def)
    from Cons.IH [OF this] True show ?thesis by simp
  qed
qed

lemma sweep_cities_collected:
  "collected s0 (all_new, s) \<Longrightarrow> collected s0 (sweep_cities L W t cities (all_new, s))"
proof (induction cities arbitrary: all_new s)
  case Nil
  then show ?case by simp
next
  case (Cons city cities)
  obtain jobs clk where p: "parse_indeed_search L (site W) t city 1 (clock s) = (jobs, clk)"
    by (cases "parse_indeed_search L (site W) t city 1 (clock s)")
  obtain all_new' s' where c:
    "collect_new (filter_by_region_and_contract L jobs BRETAGNE_CITIES True False)
       (all_new, s\<lparr> clock := clk \<rparr>) = (all_new', s')"
    by (cases "collect_new (filter_by_region_and_contract L jobs BRETAGNE_CITIES True False)
       (all_new, s\<lparr> clock := clk \<rparr>)")
  from collect_new_collected [OF collected_clock [OF Cons.prems]] c
  have "collected s0 (all_new', s')" by metis
  from Cons.IH [OF this] p c show ?case by simp
qed

lemma sweep_regional_collected:
  "collected s0 acc \<Longrightarrow> collected s0 (sweep_regional L W ts acc)"
proof (induction ts arbitrary: acc)
  case Nil
  then show ?case by simp
next
  case (Cons t ts)
  obtain all_new s where acc: "acc = (all_new, s)" by (cases acc)
  from Cons.prems acc have "collected s0 (sweep_cities L W t BRETAGNE_CITIES acc)"
    using sweep_cities_collected by simp
  from Cons.IH [OF this] show ?case by simp
qed

lemma sweep_remote_collected:
  "collected s0 (all_new, s) \<Longrightarrow> collected s0 (sweep_remote L W ts (all_new, s))"
proof (induction ts arbitrary: all_new s)
  case Nil
  then show ?case by simp
next
  case (Cons t ts)
  let ?p = "parse_indeed_search L (site W) (t @ str '' '' @ teletravail) (str ''France'') 1
              (clock s)"
  obtain jobs clk where p: "?p = (jobs, clk)" by (cases ?p)
  obtain all_new' s' where c:
    "collect_new_remote L (filter_by_region_and_contract L jobs BRETAGNE_CITIES True True)
       (all_new, s\<lparr> clock := clk \<rparr>) = (all_new', s')"
    by (cases "collect_new_remote L (filter_by_region_and_contract L jobs BRETAGNE_CITIES True True)
       (all_new, s\<lparr> clock := clk \<rparr>)")
  from collect_new_remote_collected [OF collected_clock [OF Cons.prems]] c
  have "collected s0 (all_new', s')" by metis
  from Cons.IH [OF this] p c show ?case by simp
qed

lemma collect_collected: "collected s (collect L W s)"
proof -
  obtain all_new s1 where r: "sweep_regional L W TITLES ([], s) = (all_new, s1)"
    by (cases "sweep_regional L W TITLES ([], s)")
  from sweep_regional_collected [OF collected_start, of s L W TITLES] r
  have "collected s (all_new, s1)" by simp
  from sweep_remote_collected [OF this] r show ?thesis by (simp add: collect_def)
qed

lemma notify_all_history:
  "\<exists>results. length results = length js
     \<and> history (notify_all W token chat js s)
         = history s @ map (\<lambda>(j, ok). Send j ok) (zip js results)
     \<and> seen (notify_all W token chat js s) = seen s"
proof (induction js arbitrary: s)
  case Nil
  then show ?case by simp
next
  case (Cons j js)
  let ?ok = "send_telegram_message (endpoint W (clock s)) token chat (format_job_message j)"
  let ?s = "s\<lparr> clock := Suc (clock s), history := history s @ [Send j ?ok] \<rparr>"
  from Cons.IH [of ?s] obtain results where r: "length results = length js"
    "history (notify_all W token chat js ?s) = history ?s @ map (\<lambda>(j, ok). Send j ok) (zip js results)"
    "seen (notify_all W token chat js ?s) = seen ?s" by blast
  have "length (?ok # results) = length (j # js)" using r(1) by simp
  moreover have "history (notify_all W token chat (j # js) s)
         = history s @ map (\<lambda>(j, ok). Send j ok) (zip (j # js) (?ok # results))"
    using r(2) by simp
  moreover have "seen (notify_all W token chat (j # js) s) = seen s" using r(3) by simp
  ultimately show ?case by blast
qed

subsection \<open>A cycle on a sample page\<close>

text \<open>
  The first request of the cycle returns a page with two postings, every later one
  raises; the endpoint answers the first message (request 54) with status 500.
\<close>

lemma parse_first_request:
  "parse_indeed_search latin1_lib site_one_page query loc (Suc 0) 0 = ([job_a1, job_b2], 1)"
  using parse_one_page [of query loc] by simp

lemma parse_later_request:
  "0 < clk \<Longrightarrow> parse_indeed_search L site_one_page query loc (Suc 0) clk = ([], Suc clk)"
  by (simp add: parse_indeed_search_def site_one_page_def)

lemma filter_sample_jobs:
  "filter_by_region_and_contract latin1_lib [job_a1, job_b2] BRETAGNE_CITIES True False
     = [job_a1, job_b2]"
  by (simp add: job_a1_def job_b2_def eval_str eval_filter)

lemma sample_ids_differ: "job_id job_b2 \<noteq> job_id job_a1"
  by (simp add: job_a1_def job_b2_def str_def)

lemma collect_one_page:
  "collect latin1_lib world_one_page bot_start
     = ([job_a1, job_b2],
        \<lparr> clock = 54, seen = {PStr (job_id job_b2), PStr (job_id job_a1)},
          history = [Seen_add (job_id job_a1), Seen_add (job_id job_b2)] \<rparr>)"
  by (simp add: collect_def TITLES_def BRETAGNE_CITIES_def
      world_one_page_def bot_start_def parse_first_request parse_later_request
      filter_sample_jobs [unfolded BRETAGNE_CITIES_def] sample_ids_differ
      del: filter_by_region_and_contract.simps(2))

lemma cycle_one_page:
  "cycle latin1_lib world_one_page (str ''TOKEN'') (str ''42'') bot_start
     = (\<lparr> clock = 56, seen = {PStr (job_id job_b2), PStr (job_id job_a1)},
          history = [Seen_add (job_id job_a1), Seen_add (job_id job_b2),
                     Send job_a1 False, Send job_b2 True,
                     Save_seen {PStr (job_id job_b2), PStr (job_id job_a1)}] \<rparr>,
        False)"
  by (simp add: cycle_def collect_one_page)
    (simp add: send_telegram_message_def save_seen_def world_one_page_def
       endpoint_first_fails_def)

subsection \<open>Seen before notified\<close>

text \<open>
  C7. In one cycle, what the loop does to the seen set and to the endpoint is, in this
  order: one \<open>seen.add\<close> for each newly collected record, then one call of
  \<open>send_telegram_message\<close> for each of these records, in the same order and whatever
  the earlier calls returned, then at most the save. So the identifier of every new record
  is in the seen set before the first notification is attempted, and nothing is removed:
  at the end of the cycle the seen set is the old one together with the identifiers of all
  new records, those whose notification failed included.
\<close>

theorem seen_before_notify:
  assumes "collect L W s = (all_new, s1)" and "cycle L W token chat s = (s', died)"
  shows "\<exists>results saved. length results = length all_new
     \<and> history s' = history s @ map (\<lambda>j. Seen_add (job_id j)) all_new
                       @ map (\<lambda>(j, ok). Send j ok) (zip all_new results) @ saved
     \<and> (saved = [] \<or> saved = [Save_seen (seen s')])
     \<and> seen s' = seen s \<union> (\<lambda>j. PStr (job_id j)) ` set all_new
     \<and> (\<forall>j \<in> set all_new. PStr (job_id j) \<in> seen s')"
proof -
  from collect_collected [of s L W] assms(1)
  have h1: "history s1 = history s @ map (\<lambda>j. Seen_add (job_id j)) all_new"
    and e1: "seen s1 = seen s \<union> (\<lambda>j. PStr (job_id j)) ` set all_new"
    by (simp_all add: collected_def)
  show ?thesis
  proof (cases "all_new = []")
    case True
    with assms have "s' = s1" by (simp add: cycle_def)
    with True h1 e1 show ?thesis by simp
  next
    case False
    let ?s2 = "notify_all W token chat all_new s1"
    from notify_all_history [of all_new W token chat s1] obtain results where
      r: "length results = length all_new"
         "history ?s2 = history s1 @ map (\<lambda>(j, ok). Send j ok) (zip all_new results)"
         "seen ?s2 = seen s1" by blast
    from assms False have c: "save_seen W ?s2 = (s', died)" by (simp add: cycle_def)
    show ?thesis
    proof (cases "write_raises W (clock ?s2)")
      case True
      with c have "s' = ?s2" by (simp add: save_seen_def)
      with r h1 e1 have "length results = length all_new
        \<and> history s' = history s @ map (\<lambda>j. Seen_add (job_id j)) all_new
                       @ map (\<lambda>(j, ok). Send j ok) (zip all_new results) @ []
        \<and> seen s' = seen s \<union> (\<lambda>j. PStr (job_id j)) ` set all_new" by simp
      then show ?thesis by blast
    next
      case False
      with c have s': "s' = ?s2\<lparr> history := history ?s2 @ [Save_seen (seen ?s2)] \<rparr>"
        by (auto simp: save_seen_def)
      with r h1 e1 have "length results = length all_new
        \<and> history s' = history s @ map (\<lambda>j. Seen_add (job_id j)) all_new
                       @ map (\<lambda>(j, ok). Send j ok) (zip all_new results) @ [Save_seen (seen s')]
        \<and> seen s' = seen s \<union> (\<lambda>j. PStr (job_id j)) ` set all_new" by simp
      then show ?thesis by blast
    qed
  qed
qed

theorem seen_before_notify_witness:
  "collect latin1_lib world_one_page bot_start
     = ([job_a1, job_b2],
        \<lparr> clock = 54, seen = {PStr (job_id job_b2), PStr (job_id job_a1)},
          history = [Seen_add (job_id job_a1), Seen_add (job_id job_b2)] \<rparr>)
   \<and> history (fst (cycle latin1_lib world_one_page (str ''TOKEN'') (str ''42'') bot_start))
       = [Seen_add (job_id job_a1), Seen_add (job_id job_b2),
          Send job_a1 False, Send job_b2 True,
          Save_seen {PStr (job_id job_b2), PStr (job_id job_a1)}]
   \<and> PStr (job_id job_a1)
       \<in> seen (fst (cycle latin1_lib world_one_page (str ''TOKEN'') (str ''42'') bot_start))
   \<and> (\<exists>results saved. length results = length [job_a1, job_b2]
        \<and> history (fst (cycle latin1_lib world_one_page (str ''TOKEN'') (str ''42'') bot_start))
            = history bot_start @ map (\<lambda>j. Seen_add (job_id j)) [job_a1, job_b2]
                @ map (\<lambda>(j, ok). Send j ok) (zip [job_a1, job_b2] results) @ saved)"
proof -
  from seen_before_notify [OF collect_one_page cycle_one_page]
  obtain results saved where "length results = length [job_a1, job_b2]"
    "history (fst (cycle latin1_lib world_one_page (str ''TOKEN'') (str ''42'') bot_start))
       = history bot_start @ map (\<lambda>j. Seen_add (job_id j)) [job_a1, job_b2]
           @ map (\<lambda>(j, ok). Send j ok) (zip [job_a1, job_b2] results) @ saved"
    unfolding cycle_one_page by auto
  then have "\<exists>results saved. length results = length [job_a1, job_b2]
        \<and> history (fst (cycle latin1_lib world_one_page (str ''TOKEN'') (str ''42'') bot_start))
            = history bot_start @ map (\<lambda>j. Seen_add (job_id j)) [job_a1, job_b2]
                @ map (\<lambda>(j, ok). Send j ok) (zip [job_a1, job_b2] results) @ saved"
    by blast
  moreover have "history (fst (cycle latin1_lib world_one_page (str ''TOKEN'') (str ''42'') bot_start))
       = [Seen_add (job_id job_a1), Seen_add (job_id job_b2),
          Send job_a1 False, Send job_b2 True,
          Save_seen {PStr (job_id job_b2), PStr (job_id job_a1)}]"
    unfolding cycle_one_page by simp
  moreover have "PStr (job_id job_a1)
       \<in> seen (fst (cycle latin1_lib world_one_page (str ''TOKEN'') (str ''42'') bot_start))"
    unfolding cycle_one_page by simp
  ultimately show ?thesis using collect_one_page by blast
qed

end
